theory Spec2Isabelle
  imports
    Complex_Main
    "HOL-Library.Sublist"
    "HOL-Library.Char_ord"
    "HOL-Library.List_Lexorder"
begin

section \<open>The used-bike dashboard: data model\<close>

text \<open>
  The program is the Streamlit script \<^verbatim>\<open>app.py\<close>. It reads a table of listings with
  \<^verbatim>\<open>pd.read_csv\<close>, builds four sidebar controls from the table, selects the rows that
  pass the four controls (lines 70 to 75) and shows three figures about the selected rows
  (lines 88 to 92).

  A row of the table is a record with the four columns the script reads. A cell that
  pandas holds as missing (\<^verbatim>\<open>NaN\<close>) is \<open>None\<close>. The remaining columns of the file are
  the extension part of the record: every function below is polymorphic in it, so they
  pass through untouched. A model year is a whole number; a price is any number, here a
  rational (the script's arithmetic is on binary floating point; the model is exact).
\<close>

record listing =
  Brand :: "string option"
  Bike_Type :: "string option"
  Year :: "int option"
  Price :: "rat option"

type_synonym 'a table = "'a listing_scheme list"

text \<open>A column of a table (a pandas Series): one cell per row, in row order.\<close>

type_synonym 'v series = "'v option list"

text \<open>
  What the four widgets return: the two multiselects give lists of options, the two
  sliders give pairs of whole numbers (their bounds are made with \<^verbatim>\<open>int\<close>, the price
  step is 10000).
\<close>

record selection =
  selected_brand :: "string list"
  selected_type :: "string list"
  year_range :: "int \<times> int"
  price_range :: "int \<times> int"

text \<open>The exception lines 63 and 66 can stop with.\<close>

datatype error =
  ValueError   \<comment> \<open>\<^verbatim>\<open>int(float('nan'))\<close>: cannot convert float NaN to integer\<close>

text \<open>A float result of an aggregate: pandas gives \<^verbatim>\<open>NaN\<close> where there is nothing to aggregate.\<close>

datatype stat = NaN | Num rat

section \<open>The pandas operations the script uses\<close>

text \<open>\<^verbatim>\<open>df['Year']\<close> as a numeric column: whole numbers read as numbers.\<close>

definition year_col :: "'a table \<Rightarrow> rat series" where
  "year_col df = map (\<lambda>r. map_option rat_of_int (Year r)) df"

definition price_col :: "'a table \<Rightarrow> rat series" where
  "price_col df = map Price df"

definition brand_col :: "'a table \<Rightarrow> string series" where
  "brand_col df = map Brand df"

definition type_col :: "'a table \<Rightarrow> string series" where
  "type_col df = map Bike_Type df"

text \<open>
  \<^verbatim>\<open>Series.isin(values)\<close>: cell by cell, whether the cell is one of the values. The
  values come from a multiselect over strings, so a missing cell is never one of them.
\<close>

definition isin :: "string series \<Rightarrow> string list \<Rightarrow> bool list" where
  "isin s vals = map (\<lambda>c. case c of None \<Rightarrow> False | Some v \<Rightarrow> v \<in> set vals) s"

text \<open>\<^verbatim>\<open>Series >= k\<close> and \<^verbatim>\<open>Series <= k\<close>: a comparison with a missing cell is False.\<close>

definition ge :: "rat series \<Rightarrow> int \<Rightarrow> bool list" where
  "ge s k = map (\<lambda>c. case c of None \<Rightarrow> False | Some v \<Rightarrow> rat_of_int k \<le> v) s"

definition le :: "rat series \<Rightarrow> int \<Rightarrow> bool list" where
  "le s k = map (\<lambda>c. case c of None \<Rightarrow> False | Some v \<Rightarrow> v \<le> rat_of_int k) s"

text \<open>\<^verbatim>\<open>a & b\<close> on two boolean columns of the same table: cell by cell.\<close>

definition band :: "bool list \<Rightarrow> bool list \<Rightarrow> bool list" where
  "band a b = map (\<lambda>(x, y). x \<and> y) (zip a b)"

text \<open>\<^verbatim>\<open>df[mask]\<close>: the rows whose mask cell is True, in the order of the table.\<close>

definition getitem :: "'r list \<Rightarrow> bool list \<Rightarrow> 'r list" where
  "getitem df m = map fst (filter snd (zip df m))"

text \<open>\<^verbatim>\<open>Series.dropna()\<close>: the cells that are not missing, in order.\<close>

fun dropna :: "'v series \<Rightarrow> 'v list" where
  "dropna [] = []"
| "dropna (None # cs) = dropna cs"
| "dropna (Some v # cs) = v # dropna cs"

text \<open>
  \<^verbatim>\<open>Series.unique()\<close>: the distinct values in order of first appearance. The values
  seen so far are kept; a value is appended when it has not been seen.
\<close>

fun uniques :: "'v list \<Rightarrow> 'v list \<Rightarrow> 'v list" where
  "uniques seen [] = seen"
| "uniques seen (v # vs) =
     (if v \<in> set seen then uniques seen vs else uniques (seen @ [v]) vs)"

definition unique :: "'v list \<Rightarrow> 'v list" where
  "unique vs = uniques [] vs"

text \<open>
  \<^verbatim>\<open>Series.min()\<close>, \<^verbatim>\<open>Series.max()\<close> and \<^verbatim>\<open>Series.mean()\<close> skip missing cells and give
  \<^verbatim>\<open>NaN\<close> when nothing is left.
\<close>

definition series_min :: "rat series \<Rightarrow> stat" where
  "series_min s = (case dropna s of [] \<Rightarrow> NaN | v # vs \<Rightarrow> Num (fold min vs v))"

definition series_max :: "rat series \<Rightarrow> stat" where
  "series_max s = (case dropna s of [] \<Rightarrow> NaN | v # vs \<Rightarrow> Num (fold max vs v))"

definition series_mean :: "rat series \<Rightarrow> stat" where
  "series_mean s =
     (case dropna s of [] \<Rightarrow> NaN
      | v # vs \<Rightarrow> Num (sum_list (v # vs) / rat_of_nat (length (v # vs))))"

text \<open>Python's \<^verbatim>\<open>int(x)\<close> on a float: rounds towards zero, raises ValueError on NaN.\<close>

definition float_trunc :: "rat \<Rightarrow> int" where
  "float_trunc q = (if 0 \<le> q then \<lfloor>q\<rfloor> else \<lceil>q\<rceil>)"

definition py_int :: "stat \<Rightarrow> error + int" where
  "py_int x = (case x of NaN \<Rightarrow> Inl ValueError | Num q \<Rightarrow> Inr (float_trunc q))"

section \<open>Sidebar: the domains of the controls (lines 57 to 67)\<close>

definition brands :: "'a table \<Rightarrow> string list" where
  "brands df = sort (unique (dropna (brand_col df)))"

definition bike_types :: "'a table \<Rightarrow> string list" where
  "bike_types df = sort (unique (dropna (type_col df)))"

text \<open>
  \<^verbatim>\<open>min_year, max_year = int(df['Year'].min()), int(df['Year'].max())\<close>: the tuple is
  built left to right, so the first conversion that fails stops the script.
\<close>

definition bounds :: "rat series \<Rightarrow> error + int \<times> int" where
  "bounds s =
     (case py_int (series_min s) of Inl e \<Rightarrow> Inl e
      | Inr lo \<Rightarrow> (case py_int (series_max s) of Inl e \<Rightarrow> Inl e
                   | Inr hi \<Rightarrow> Inr (lo, hi)))"

definition year_bounds :: "'a table \<Rightarrow> error + int \<times> int" where
  "year_bounds df = bounds (year_col df)"

definition price_bounds :: "'a table \<Rightarrow> error + int \<times> int" where
  "price_bounds df = bounds (price_col df)"

section \<open>Apply filters (lines 70 to 75)\<close>

text \<open>The boolean column inside \<^verbatim>\<open>df[...]\<close>: six columns joined by \<^verbatim>\<open>&\<close>, left to right.\<close>

definition row_mask :: "'a table \<Rightarrow> selection \<Rightarrow> bool list" where
  "row_mask df sel =
     band (band (band (band (band
       (isin (brand_col df) (selected_brand sel))
       (isin (type_col df) (selected_type sel)))
       (ge (year_col df) (fst (year_range sel))))
       (le (year_col df) (snd (year_range sel))))
       (ge (price_col df) (fst (price_range sel))))
       (le (price_col df) (snd (price_range sel)))"

definition filtered_df :: "'a table \<Rightarrow> selection \<Rightarrow> 'a table" where
  "filtered_df df sel = getitem df (row_mask df sel)"

section \<open>Key market stats (lines 88 to 92)\<close>

text \<open>
  The three figures handed to \<^verbatim>\<open>st.metric\<close>, before they are formatted:
  \<^verbatim>\<open>len(filtered_df)\<close>, \<^verbatim>\<open>filtered_df['Price'].mean()\<close> and \<^verbatim>\<open>filtered_df['Year'].mean()\<close>.
  Formatting a \<^verbatim>\<open>NaN\<close> gives the text \<^verbatim>\<open>nan\<close>; nothing on these lines raises.
\<close>

record kpi =
  total_listings :: nat
  average_price :: stat
  average_year :: stat

definition key_market_stats :: "'a table \<Rightarrow> kpi" where
  "key_market_stats fdf =
     \<lparr> total_listings = length fdf,
       average_price = series_mean (price_col fdf),
       average_year = series_mean (year_col fdf) \<rparr>"

section \<open>The predicate of the specification\<close>

text \<open>
  The specification's predicate per row, in its own words: brand is one of the selected
  brands and bike type is one of the selected types and the year lies between
  \<open>year_low\<close> and \<open>year_high\<close> and the price lies between \<open>price_low\<close> and
  \<open>price_high\<close>, both ends included. A missing value is neither a member of a set of
  names nor inside a range.
\<close>

definition spec_predicate :: "'a listing_scheme \<Rightarrow> selection \<Rightarrow> bool" where
  "spec_predicate r sel \<longleftrightarrow>
     (case Brand r of None \<Rightarrow> False | Some b \<Rightarrow> b \<in> set (selected_brand sel)) \<and>
     (case Bike_Type r of None \<Rightarrow> False | Some t \<Rightarrow> t \<in> set (selected_type sel)) \<and>
     (case Year r of None \<Rightarrow> False
      | Some y \<Rightarrow> fst (year_range sel) \<le> y \<and> y \<le> snd (year_range sel)) \<and>
     (case Price r of None \<Rightarrow> False
      | Some p \<Rightarrow> rat_of_int (fst (price_range sel)) \<le> p \<and>
                  p \<le> rat_of_int (snd (price_range sel)))"

section \<open>Example tables\<close>

text \<open>
  The table of the specification's scenario: two Hondas and a Yamaha, with any bike
  types.
\<close>

abbreviation (input) scenario_table :: "string \<Rightarrow> string \<Rightarrow> string \<Rightarrow> listing list" where
  "scenario_table t1 t2 t3 \<equiv>
     [\<lparr>Brand = Some ''Honda'', Bike_Type = Some t1, Year = Some 2012, Price = Some 150000\<rparr>,
      \<lparr>Brand = Some ''Honda'', Bike_Type = Some t2, Year = Some 2015, Price = Some 300000\<rparr>,
      \<lparr>Brand = Some ''Yamaha'', Bike_Type = Some t3, Year = Some 2018, Price = Some 500000\<rparr>]"

text \<open>The same table with both bike types in use.\<close>

abbreviation (input) bikes :: "listing list" where
  "bikes \<equiv> scenario_table ''Motorbikes'' ''Scooters'' ''Motorbikes''"

text \<open>A selection of everything in \<open>bikes\<close>.\<close>

abbreviation (input) everything :: selection where
  "everything \<equiv>
     \<lparr>selected_brand = [''Honda'', ''Yamaha''], selected_type = [''Motorbikes'', ''Scooters''],
      year_range = (2010, 2023), price_range = (0, 1000000)\<rparr>"

text \<open>A table with missing cells in every column and a price that is not whole.\<close>

abbreviation (input) gaps :: "listing list" where
  "gaps \<equiv>
     [\<lparr>Brand = Some ''Honda'', Bike_Type = Some ''Scooters'', Year = Some 2012,
        Price = Some 150000\<rparr>,
      \<lparr>Brand = Some ''Yamaha'', Bike_Type = None, Year = None, Price = Some (1000001 / 2)\<rparr>,
      \<lparr>Brand = None, Bike_Type = Some ''Motorbikes'', Year = Some 2018, Price = None\<rparr>]"

section \<open>The filter, row by row\<close>

lemma band_map: "band (map P xs) (map Q xs) = map (\<lambda>x. P x \<and> Q x) xs"
  by (induction xs) (simp_all add: band_def)

lemma getitem_map: "getitem xs (map P xs) = filter P xs"
  by (induction xs) (simp_all add: getitem_def)

lemma mask_rows: "row_mask df sel = map (\<lambda>r. spec_predicate r sel) df"
proof -
  have "row_mask df sel = map (\<lambda>r.
      (((((case Brand r of None \<Rightarrow> False | Some v \<Rightarrow> v \<in> set (selected_brand sel)) \<and>
      (case Bike_Type r of None \<Rightarrow> False | Some v \<Rightarrow> v \<in> set (selected_type sel))) \<and>
      (case map_option rat_of_int (Year r) of None \<Rightarrow> False
        | Some v \<Rightarrow> rat_of_int (fst (year_range sel)) \<le> v)) \<and>
      (case map_option rat_of_int (Year r) of None \<Rightarrow> False
        | Some v \<Rightarrow> v \<le> rat_of_int (snd (year_range sel)))) \<and>
      (case Price r of None \<Rightarrow> False | Some v \<Rightarrow> rat_of_int (fst (price_range sel)) \<le> v)) \<and>
      (case Price r of None \<Rightarrow> False | Some v \<Rightarrow> v \<le> rat_of_int (snd (price_range sel)))) df"
    unfolding row_mask_def isin_def ge_def le_def brand_col_def type_col_def year_col_def
      price_col_def map_map comp_def band_map ..
  also have "\<dots> = map (\<lambda>r. spec_predicate r sel) df"
    by (rule map_cong) (auto simp: spec_predicate_def split: option.splits)
  finally show ?thesis .
qed

lemma filtered_df_filter: "filtered_df df sel = filter (\<lambda>r. spec_predicate r sel) df"
  by (simp add: filtered_df_def mask_rows getitem_map)

text \<open>
  C1. For every table and every selection, the filtered result is exactly the rows that
  satisfy the conjunction of the four predicates (brand among the selected brands, bike
  type among the selected types, year within the year range, price within the price
  range, ends included), and the count shown is the number of such rows. A row is a
  position of the table, so two equal rows at different positions count twice.
\<close>

theorem filtered_df_exact:
  "filtered_df df sel = filter (\<lambda>r. spec_predicate r sel) df \<and>
   set (filtered_df df sel) = {r. r \<in> set df \<and> spec_predicate r sel} \<and>
   total_listings (key_market_stats (filtered_df df sel)) =
     card {i. i < length df \<and> spec_predicate (df ! i) sel}"
  by (auto simp: filtered_df_filter key_market_stats_def length_filter_conv_card)

section \<open>Widening and emptying a selection\<close>

lemma length_filter_mono:
  "(\<And>x. x \<in> set xs \<Longrightarrow> P x \<Longrightarrow> Q x) \<Longrightarrow> length (filter P xs) \<le> length (filter Q xs)"
  by (induction xs) auto

lemma predicate_widen:
  assumes "spec_predicate r S"
    and "set (selected_brand S) \<subseteq> set (selected_brand S')"
    and "set (selected_type S) \<subseteq> set (selected_type S')"
    and "{fst (year_range S)..snd (year_range S)} \<subseteq> {fst (year_range S')..snd (year_range S')}"
    and "{fst (price_range S)..snd (price_range S)} \<subseteq> {fst (price_range S')..snd (price_range S')}"
  shows "spec_predicate r S'"
proof -
  from assms(1) obtain b t y p where
    r: "Brand r = Some b" "Bike_Type r = Some t" "Year r = Some y" "Price r = Some p"
    and b: "b \<in> set (selected_brand S)" and t: "t \<in> set (selected_type S)"
    and y: "fst (year_range S) \<le> y" "y \<le> snd (year_range S)"
    and p: "rat_of_int (fst (price_range S)) \<le> p" "p \<le> rat_of_int (snd (price_range S))"
    by (auto simp: spec_predicate_def split: option.splits)
  from y have "fst (year_range S) \<le> snd (year_range S)" by simp
  with assms(4) have y': "fst (year_range S') \<le> fst (year_range S)"
      "snd (year_range S) \<le> snd (year_range S')"
    by (simp_all add: atLeastatMost_subset_iff)
  from p have "rat_of_int (fst (price_range S)) \<le> rat_of_int (snd (price_range S))"
    by (rule order_trans)
  then have "fst (price_range S) \<le> snd (price_range S)" by simp
  with assms(5) have p': "fst (price_range S') \<le> fst (price_range S)"
      "snd (price_range S) \<le> snd (price_range S')"
    by (simp_all add: atLeastatMost_subset_iff)
  from p' have "rat_of_int (fst (price_range S')) \<le> rat_of_int (fst (price_range S))"
     "rat_of_int (snd (price_range S)) \<le> rat_of_int (snd (price_range S'))"
    by simp_all
  with p have "rat_of_int (fst (price_range S')) \<le> p" "p \<le> rat_of_int (snd (price_range S'))"
    by simp_all
  moreover from y y' have "fst (year_range S') \<le> y" "y \<le> snd (year_range S')" by simp_all
  moreover from b assms(2) have "b \<in> set (selected_brand S')" by blast
  moreover from t assms(3) have "t \<in> set (selected_type S')" by blast
  ultimately show ?thesis
    by (simp add: spec_predicate_def r)
qed

lemma count_widen:
  assumes "set (selected_brand S) \<subseteq> set (selected_brand S')"
    and "set (selected_type S) \<subseteq> set (selected_type S')"
    and "{fst (year_range S)..snd (year_range S)} \<subseteq> {fst (year_range S')..snd (year_range S')}"
    and "{fst (price_range S)..snd (price_range S)} \<subseteq> {fst (price_range S')..snd (price_range S')}"
  shows "length (filtered_df df S) \<le> length (filtered_df df S')"
  unfolding filtered_df_filter
  by (rule length_filter_mono) (rule predicate_widen [OF _ assms])

text \<open>
  C3. For every table and every two selections of which the second widens one
  dimension of the first (its brands include the first's brands, or its types include
  the first's types, or its year range contains the first's, or its price range contains
  the first's) and agrees with it on the other three, the count under the second is at
  least the count under the first.
\<close>

theorem widening_never_decreases_count:
  assumes "(set (selected_brand S) \<subseteq> set bs' \<and> S' = S\<lparr>selected_brand := bs'\<rparr>) \<or>
           (set (selected_type S) \<subseteq> set ts' \<and> S' = S\<lparr>selected_type := ts'\<rparr>) \<or>
           ({fst (year_range S)..snd (year_range S)} \<subseteq> {fst yr'..snd yr'} \<and>
              S' = S\<lparr>year_range := yr'\<rparr>) \<or>
           ({fst (price_range S)..snd (price_range S)} \<subseteq> {fst pr'..snd pr'} \<and>
              S' = S\<lparr>price_range := pr'\<rparr>)"
  shows "total_listings (key_market_stats (filtered_df df S)) \<le>
         total_listings (key_market_stats (filtered_df df S'))"
proof -
  from assms have "length (filtered_df df S) \<le> length (filtered_df df S')"
    by (elim disjE conjE) (rule count_widen; simp)+
  then show ?thesis by (simp add: key_market_stats_def)
qed

theorem widening_never_decreases_count_witness:
  "set (selected_brand (everything\<lparr>selected_brand := [''Honda'']\<rparr>)) \<subseteq> set [''Honda'', ''Yamaha''] \<and>
   total_listings (key_market_stats
     (filtered_df bikes (everything\<lparr>selected_brand := [''Honda'']\<rparr>))) = 2 \<and>
   total_listings (key_market_stats (filtered_df bikes everything)) = 3 \<and>
   total_listings (key_market_stats
     (filtered_df bikes (everything\<lparr>selected_brand := [''Honda'']\<rparr>))) \<le>
   total_listings (key_market_stats (filtered_df bikes everything))"
  using widening_never_decreases_count [where
      S = "everything\<lparr>selected_brand := [''Honda'']\<rparr>" and bs' = "[''Honda'', ''Yamaha'']"
      and S' = everything and ts' = "[]" and yr' = "(0, 0)" and pr' = "(0, 0)" and df = bikes]
  by (simp add: filtered_df_filter spec_predicate_def key_market_stats_def)

lemma stats_empty:
  "key_market_stats [] = \<lparr>total_listings = 0, average_price = NaN, average_year = NaN\<rparr>"
  by (simp add: key_market_stats_def series_mean_def price_col_def year_col_def)

text \<open>
  C4. For every table, a selection with no brand or with no bike type gives an empty
  filtered result, a count of 0, and a mean price and a mean year that are both
  \<^verbatim>\<open>NaN\<close>: a value, not an exception.
\<close>

theorem empty_selection_no_rows:
  fixes df :: "'a table"
  assumes "selected_brand sel = [] \<or> selected_type sel = []"
  shows "filtered_df df sel = [] \<and>
         key_market_stats (filtered_df df sel) =
           \<lparr>total_listings = 0, average_price = NaN, average_year = NaN\<rparr>"
proof -
  from assms have "\<not> spec_predicate r sel" for r :: "'a listing_scheme"
    by (auto simp: spec_predicate_def split: option.splits)
  then have "filtered_df df sel = []"
    by (simp add: filtered_df_filter)
  then show ?thesis by (simp add: stats_empty)
qed

theorem empty_selection_no_rows_witness:
  "selected_brand (everything\<lparr>selected_brand := []\<rparr>) = [] \<and>
   filtered_df bikes (everything\<lparr>selected_brand := []\<rparr>) = [] \<and>
   key_market_stats (filtered_df bikes (everything\<lparr>selected_brand := []\<rparr>)) =
     \<lparr>total_listings = 0, average_price = NaN, average_year = NaN\<rparr> \<and>
   total_listings (key_market_stats (filtered_df bikes everything)) = 3"
  using empty_selection_no_rows [of "everything\<lparr>selected_brand := []\<rparr>" bikes]
  by (simp add: filtered_df_filter spec_predicate_def key_market_stats_def)

text \<open>
  C6. For every table and every selection in which the low end of the year range or of
  the price range is above its high end, the filter returns the empty result (and a
  count of 0): a value, not an exception.
\<close>

theorem inverted_range_no_rows:
  fixes df :: "'a table"
  assumes "snd (year_range sel) < fst (year_range sel) \<or>
           snd (price_range sel) < fst (price_range sel)"
  shows "filtered_df df sel = [] \<and>
         total_listings (key_market_stats (filtered_df df sel)) = 0"
proof -
  have "\<not> spec_predicate r sel" for r :: "'a listing_scheme"
  proof
    assume "spec_predicate r sel"
    then obtain y p where "fst (year_range sel) \<le> y" "y \<le> snd (year_range sel)"
      "rat_of_int (fst (price_range sel)) \<le> p" "p \<le> rat_of_int (snd (price_range sel))"
      by (auto simp: spec_predicate_def split: option.splits)
    then have "fst (year_range sel) \<le> snd (year_range sel)"
      "rat_of_int (fst (price_range sel)) \<le> rat_of_int (snd (price_range sel))"
      by simp_all
    with assms show False by simp
  qed
  then have "filtered_df df sel = []"
    by (simp add: filtered_df_filter)
  then show ?thesis by (simp add: stats_empty)
qed

theorem inverted_range_no_rows_witness:
  "snd (year_range (everything\<lparr>year_range := (2023, 2010)\<rparr>)) <
     fst (year_range (everything\<lparr>year_range := (2023, 2010)\<rparr>)) \<and>
   filtered_df bikes (everything\<lparr>year_range := (2023, 2010)\<rparr>) = [] \<and>
   total_listings (key_market_stats
     (filtered_df bikes (everything\<lparr>year_range := (2023, 2010)\<rparr>))) = 0"
  using inverted_range_no_rows [of "everything\<lparr>year_range := (2023, 2010)\<rparr>" bikes]
  by (simp add: filtered_df_filter spec_predicate_def key_market_stats_def)

text \<open>
  C7. For every table and every selection, the rows of the filtered result are in the
  order of the table: the result is a subsequence of the table, namely the rows at the
  positions where the mask is True, by ascending position.
\<close>

theorem filter_keeps_order:
  "subseq (filtered_df df sel) df \<and>
   filtered_df df sel = nths df {i. i < length df \<and> row_mask df sel ! i}"
proof
  show "subseq (filtered_df df sel) df"
    by (simp add: filtered_df_filter)
  have "{i. i < length df \<and> spec_predicate (df ! i) sel} = {i. i < length df \<and> row_mask df sel ! i}"
    by (auto simp: mask_rows)
  then show "filtered_df df sel = nths df {i. i < length df \<and> row_mask df sel ! i}"
    by (simp add: filtered_df_filter filter_eq_nths)
qed

section \<open>The domains of the controls\<close>

lemma set_dropna: "set (dropna s) = {v. Some v \<in> set s}"
  by (induction s rule: dropna.induct) auto

lemma dropna_map_option:
  "dropna (map (\<lambda>r. map_option g (f r)) xs) = map g (dropna (map f xs))"
proof (induction xs)
  case Nil
  show ?case by simp
next
  case (Cons x xs)
  then show ?case by (cases "f x") simp_all
qed

lemma set_uniques: "set (uniques seen vs) = set seen \<union> set vs"
  by (induction seen vs rule: uniques.induct) auto

lemma distinct_uniques: "distinct seen \<Longrightarrow> distinct (uniques seen vs)"
  by (induction seen vs rule: uniques.induct) auto

lemma set_unique: "set (unique vs) = set vs"
  by (simp add: unique_def set_uniques)

lemma distinct_unique: "distinct (unique vs)"
  by (simp add: unique_def distinct_uniques)

text \<open>
  The order of strings is the lexicographic order of their characters, and a character
  is less than another when its code is. (On UTF-8 bytes this is the order of code points
  that Python's \<^verbatim>\<open>sorted\<close> uses.)
\<close>

lemma lexord_options:
  "sorted_wrt (\<lambda>a b. (a, b) \<in> lexord {(c, d). (of_char c :: nat) < of_char d})
     (sort (unique (dropna s)))"
proof -
  have "sorted_wrt (<) (sort (unique (dropna s)))"
    by (simp add: strict_sorted_iff distinct_unique)
  then show ?thesis
    unfolding list_less_def less_char_def .
qed

text \<open>
  C8. For every table, the brand options and the bike-type options offered to the
  controls have no duplicates, are exactly the values of the column that are not
  missing, and are in ascending lexicographic order.
\<close>

theorem domains_sorted_distinct:
  "distinct (brands df) \<and> sorted (brands df) \<and>
   sorted_wrt (\<lambda>a b. (a, b) \<in> lexord {(c, d). (of_char c :: nat) < of_char d}) (brands df) \<and>
   set (brands df) = {b. Some b \<in> set (brand_col df)} \<and>
   distinct (bike_types df) \<and> sorted (bike_types df) \<and>
   sorted_wrt (\<lambda>a b. (a, b) \<in> lexord {(c, d). (of_char c :: nat) < of_char d})
     (bike_types df) \<and>
   set (bike_types df) = {t. Some t \<in> set (type_col df)}"
  unfolding brands_def bike_types_def
  by (simp add: lexord_options distinct_unique set_unique set_dropna)

section \<open>The bounds of the sliders\<close>

lemma float_trunc_of_int: "float_trunc (rat_of_int k) = k"
  by (simp add: float_trunc_def)

lemma float_trunc_whole: "q \<in> \<int> \<Longrightarrow> rat_of_int (float_trunc q) = q"
  by (auto simp: float_trunc_def elim!: Ints_cases)

lemma fold_min_Min: "fold min vs v = Min (set (v # vs))"
  by (rule Min.set_eq_fold [symmetric])

lemma fold_max_Max: "fold max vs v = Max (set (v # vs))"
  by (rule Max.set_eq_fold [symmetric])

lemma bounds_nonempty:
  assumes "dropna s \<noteq> []"
  shows "bounds s =
    Inr (float_trunc (Min (set (dropna s))), float_trunc (Max (set (dropna s))))"
proof -
  from assms obtain v vs where "dropna s = v # vs"
    by (cases "dropna s") auto
  then show ?thesis
    by (simp add: bounds_def series_min_def series_max_def py_int_def
        fold_min_Min fold_max_Max)
qed

lemma bounds_empty: "dropna s = [] \<Longrightarrow> bounds s = Inl ValueError"
  by (simp add: bounds_def series_min_def py_int_def)

lemma Min_of_int: "A \<noteq> {} \<Longrightarrow> finite A \<Longrightarrow> Min (rat_of_int ` A) = rat_of_int (Min A)"
  by (rule mono_Min_commute [symmetric]) (auto simp: mono_def)

lemma Max_of_int: "A \<noteq> {} \<Longrightarrow> finite A \<Longrightarrow> Max (rat_of_int ` A) = rat_of_int (Max A)"
  by (rule mono_Max_commute [symmetric]) (auto simp: mono_def)

lemma year_bounds_nonempty:
  assumes "dropna (map Year df) \<noteq> []"
  shows "year_bounds df =
    Inr (Min (set (dropna (map Year df))), Max (set (dropna (map Year df))))"
proof -
  have eq: "dropna (year_col df) = map rat_of_int (dropna (map Year df))"
    unfolding year_col_def by (rule dropna_map_option)
  with assms have "dropna (year_col df) \<noteq> []" by simp
  then have "year_bounds df = Inr (float_trunc (Min (set (dropna (year_col df)))),
      float_trunc (Max (set (dropna (year_col df)))))"
    unfolding year_bounds_def by (rule bounds_nonempty)
  moreover have "set (dropna (map Year df)) \<noteq> {}" using assms by simp
  ultimately show ?thesis
    by (simp add: eq Min_of_int Max_of_int float_trunc_of_int)
qed

text \<open>
  C5, as the code has it. For every table whose year and price columns still hold a
  value once the missing ones are dropped: the year bounds of the slider are exactly
  the least and the greatest year that is not missing; the price bounds are the least
  and the greatest price that is not missing, each rounded towards zero to a whole
  number by \<^verbatim>\<open>int\<close>, and so exactly the least (greatest) price whenever that price is a
  whole number.
\<close>

theorem bounds_are_truncated_extremes:
  assumes "dropna (map Year df) \<noteq> []" and "dropna (map Price df) \<noteq> []"
  shows "year_bounds df =
           Inr (Min (set (dropna (map Year df))), Max (set (dropna (map Year df)))) \<and>
         price_bounds df =
           Inr (float_trunc (Min (set (dropna (map Price df)))),
                float_trunc (Max (set (dropna (map Price df))))) \<and>
         (Min (set (dropna (map Price df))) \<in> \<int> \<longrightarrow>
            rat_of_int (fst (projr (price_bounds df))) = Min (set (dropna (map Price df)))) \<and>
         (Max (set (dropna (map Price df))) \<in> \<int> \<longrightarrow>
            rat_of_int (snd (projr (price_bounds df))) = Max (set (dropna (map Price df))))"
  using assms
  by (simp add: year_bounds_nonempty price_bounds_def price_col_def bounds_nonempty
      float_trunc_whole)

text \<open>
  C5 as stated fails on a table of two listings priced 45000.5 and 2500000.75: both
  columns hold values, the least price is 45000.5 and the greatest is 2500000.75, and
  the price bounds are 45000 and 2500000.
\<close>

theorem price_bounds_counterexample:
  "dropna (map Year
     [\<lparr>Brand = Some ''Honda'', Bike_Type = Some ''Scooters'', Year = Some 2005,
        Price = Some (90001 / 2)\<rparr>,
      \<lparr>Brand = Some ''Yamaha'', Bike_Type = Some ''Motorbikes'', Year = Some 2020,
        Price = Some (10000003 / 4)\<rparr>]) = [2005, 2020] \<and>
   dropna (map Price
     [\<lparr>Brand = Some ''Honda'', Bike_Type = Some ''Scooters'', Year = Some 2005,
        Price = Some (90001 / 2)\<rparr>,
      \<lparr>Brand = Some ''Yamaha'', Bike_Type = Some ''Motorbikes'', Year = Some 2020,
        Price = Some (10000003 / 4)\<rparr>]) = [90001 / 2, 10000003 / 4] \<and>
   Min (set [90001 / 2, 10000003 / 4 :: rat]) = 90001 / 2 \<and>
   Max (set [90001 / 2, 10000003 / 4 :: rat]) = 10000003 / 4 \<and>
   price_bounds
     [\<lparr>Brand = Some ''Honda'', Bike_Type = Some ''Scooters'', Year = Some 2005,
        Price = Some (90001 / 2)\<rparr>,
      \<lparr>Brand = Some ''Yamaha'', Bike_Type = Some ''Motorbikes'', Year = Some 2020,
        Price = Some (10000003 / 4)\<rparr>] = Inr (45000, 2500000) \<and>
   rat_of_int 45000 \<noteq> 90001 / 2 \<and> rat_of_int 2500000 \<noteq> 10000003 / 4"
  by (simp add: price_bounds_def bounds_def price_col_def series_min_def series_max_def
      py_int_def float_trunc_def floor_eq_iff)

theorem bounds_are_truncated_extremes_witness:
  "dropna (map Year gaps) = [2012, 2018] \<and>
   dropna (map Price gaps) = [150000, 1000001 / 2] \<and>
   year_bounds gaps = Inr (2012, 2018) \<and>
   price_bounds gaps = Inr (150000, 500000)"
  using bounds_are_truncated_extremes [of gaps]
  by (simp add: float_trunc_def floor_eq_iff)

section \<open>The scenario of the specification\<close>

text \<open>
  C2. On the table of three listings (Honda, 2012, 150000), (Honda, 2015, 300000),
  (Yamaha, 2018, 500000), whatever their bike types, the selection of the brand Honda,
  all bike types of the table, the years 2010 to 2023 and the prices 0 to 1000000 gives
  exactly the two Honda rows, a count of 2, a mean price of 225000 and a mean year of
  2013.5.
\<close>

theorem honda_scenario:
  "filtered_df (scenario_table t1 t2 t3)
     \<lparr>selected_brand = [''Honda''], selected_type = bike_types (scenario_table t1 t2 t3),
      year_range = (2010, 2023), price_range = (0, 1000000)\<rparr> =
     [\<lparr>Brand = Some ''Honda'', Bike_Type = Some t1, Year = Some 2012, Price = Some 150000\<rparr>,
      \<lparr>Brand = Some ''Honda'', Bike_Type = Some t2, Year = Some 2015, Price = Some 300000\<rparr>] \<and>
   key_market_stats (filtered_df (scenario_table t1 t2 t3)
     \<lparr>selected_brand = [''Honda''], selected_type = bike_types (scenario_table t1 t2 t3),
      year_range = (2010, 2023), price_range = (0, 1000000)\<rparr>) =
     \<lparr>total_listings = 2, average_price = Num 225000, average_year = Num 2013.5\<rparr>"
  by (simp add: filtered_df_filter spec_predicate_def bike_types_def set_unique set_dropna
      type_col_def key_market_stats_def series_mean_def price_col_def year_col_def)

section \<open>Rows with a missing brand or bike type\<close>

lemma predicate_complete:
  "spec_predicate r sel \<Longrightarrow> Brand r \<noteq> None \<and> Bike_Type r \<noteq> None"
  by (cases "Brand r"; cases "Bike_Type r") (simp_all add: spec_predicate_def)

lemma filter_complete_first:
  "filter (\<lambda>r. spec_predicate r sel) (filter (\<lambda>r. Brand r \<noteq> None \<and> Bike_Type r \<noteq> None) df) =
   filter (\<lambda>r. spec_predicate r sel) df"
proof (induction df)
  case Nil
  show ?case by simp
next
  case (Cons r df)
  show ?case
  proof (cases "spec_predicate r sel")
    case True
    with predicate_complete [OF True] Cons show ?thesis by simp
  next
    case False
    with Cons show ?thesis by simp
  qed
qed

text \<open>
  C10. For every table and every selection, also one of all brands and all bike types, a
  row whose brand or whose bike type is missing has a False mask cell, so it is not in
  the filtered result; the filtered result and the three figures computed from it are
  those of the table without such rows.
\<close>

theorem missing_brand_or_type_never_selected:
  fixes df :: "'a table"
  shows "(\<forall>i < length df. Brand (df ! i) = None \<or> Bike_Type (df ! i) = None \<longrightarrow>
            \<not> row_mask df sel ! i) \<and>
         (\<forall>r \<in> set (filtered_df df sel). Brand r \<noteq> None \<and> Bike_Type r \<noteq> None) \<and>
         filtered_df df sel =
           filtered_df (filter (\<lambda>r. Brand r \<noteq> None \<and> Bike_Type r \<noteq> None) df) sel \<and>
         key_market_stats (filtered_df df sel) =
           key_market_stats
             (filtered_df (filter (\<lambda>r. Brand r \<noteq> None \<and> Bike_Type r \<noteq> None) df) sel)"
proof -
  have a: "\<not> row_mask df sel ! i"
    if "i < length df" "Brand (df ! i) = None \<or> Bike_Type (df ! i) = None" for i
  proof
    assume "row_mask df sel ! i"
    with that(1) have "spec_predicate (df ! i) sel" by (simp add: mask_rows)
    from predicate_complete [OF this] that(2) show False by auto
  qed
  have b: "Brand r \<noteq> None \<and> Bike_Type r \<noteq> None" if "r \<in> set (filtered_df df sel)" for r
  proof -
    from that have "spec_predicate r sel" by (simp add: filtered_df_filter)
    then show ?thesis by (rule predicate_complete)
  qed
  have c: "filtered_df df sel =
      filtered_df (filter (\<lambda>r. Brand r \<noteq> None \<and> Bike_Type r \<noteq> None) df) sel"
    unfolding filtered_df_filter by (rule filter_complete_first [symmetric])
  have d: "key_market_stats (filtered_df df sel) =
      key_market_stats
        (filtered_df (filter (\<lambda>r. Brand r \<noteq> None \<and> Bike_Type r \<noteq> None) df) sel)"
    by (rule arg_cong [OF c])
  show ?thesis
  proof (intro conjI allI impI ballI)
    fix i
    assume "i < length df" "Brand (df ! i) = None \<or> Bike_Type (df ! i) = None"
    then show "\<not> row_mask df sel ! i" by (rule a)
  next
    fix r
    assume "r \<in> set (filtered_df df sel)"
    from b [OF this] show "Brand r \<noteq> None" ..
  next
    fix r
    assume "r \<in> set (filtered_df df sel)"
    from b [OF this] show "Bike_Type r \<noteq> None" ..
  next
    show "filtered_df df sel =
      filtered_df (filter (\<lambda>r. Brand r \<noteq> None \<and> Bike_Type r \<noteq> None) df) sel"
      by (rule c)
  next
    show "key_market_stats (filtered_df df sel) =
      key_market_stats
        (filtered_df (filter (\<lambda>r. Brand r \<noteq> None \<and> Bike_Type r \<noteq> None) df) sel)"
      by (rule d)
  qed
qed

theorem missing_brand_or_type_never_selected_witness:
  "(2 :: nat) < length gaps \<and> Bike_Type (gaps ! 1) = None \<and> Brand (gaps ! 2) = None \<and>
   brands gaps = [''Honda'', ''Yamaha''] \<and>
   bike_types gaps = [''Motorbikes'', ''Scooters''] \<and>
   row_mask gaps
     \<lparr>selected_brand = brands gaps, selected_type = bike_types gaps,
      year_range = (2010, 2023), price_range = (0, 1000000)\<rparr> = [True, False, False] \<and>
   filtered_df gaps
     \<lparr>selected_brand = brands gaps, selected_type = bike_types gaps,
      year_range = (2010, 2023), price_range = (0, 1000000)\<rparr> = [gaps ! 0] \<and>
   Brand (gaps ! 0) \<noteq> None \<and> Bike_Type (gaps ! 0) \<noteq> None"
  using missing_brand_or_type_never_selected [of gaps
     "\<lparr>selected_brand = brands gaps, selected_type = bike_types gaps,
        year_range = (2010, 2023), price_range = (0, 1000000)\<rparr>"]
  by (simp add: filtered_df_filter mask_rows spec_predicate_def brands_def bike_types_def
      unique_def brand_col_def type_col_def)

end
